theory Spec2Isabelle
  imports Complex_Main
begin

section \<open>The DateTime value type of indicator-datetime (src/date-time.cpp)\<close>

text \<open>
  \<^verbatim>\<open>DateTime\<close> wraps two GLib handles in shared pointers: \<^verbatim>\<open>m_tz\<close> (a
  \<^verbatim>\<open>GTimeZone*\<close>) and \<^verbatim>\<open>m_dt\<close> (a \<^verbatim>\<open>GDateTime*\<close>). A pointer is modelled as an
  option, \<open>None\<close> being \<^verbatim>\<open>nullptr\<close>. Reference counting
  (\<^verbatim>\<open>g_time_zone_ref\<close>, \<^verbatim>\<open>g_date_time_unref\<close>, the shared pointers' deleters) only
  manages memory and is left out: \<^verbatim>\<open>g_time_zone_ref\<close> and \<^verbatim>\<open>g_date_time_ref\<close> return
  their argument.

  The C \<^verbatim>\<open>int\<close>, \<^verbatim>\<open>time_t\<close> and \<^verbatim>\<open>int64_t\<close> values are handed to and from GLib
  unchanged (the file does no arithmetic on them), so they are modelled as \<open>int\<close>.
  The \<^verbatim>\<open>double\<close> seconds are likewise only passed through; the one value the file
  itself produces is the literal 0. They are modelled as \<open>real\<close>.

  \<^verbatim>\<open>DateTime::format\<close> hands a pattern to GLib and copies the answer; it is not
  modelled, since nothing below depends on it.
\<close>

subsection \<open>Aborting and returning checks\<close>

text \<open>
  \<^verbatim>\<open>g_assert(e)\<close> aborts the process when \<^verbatim>\<open>e\<close> is false: the operation then has
  no result, which is the value \<open>Inl Aborted\<close>. \<^verbatim>\<open>g_return_if_fail(e)\<close> is not an
  abort: when \<^verbatim>\<open>e\<close> is false it logs a critical message and returns from the
  enclosing function, which is written out as an early return in each definition.
  Both macros are modelled as GLib defines them by default, that is without
  \<^verbatim>\<open>G_DISABLE_ASSERT\<close> and \<^verbatim>\<open>G_DISABLE_CHECKS\<close>.
\<close>

datatype failure = Aborted

subsection \<open>The data model\<close>

record ('tz, 'dt) DateTime =
  m_tz :: "'tz option"
  m_dt :: "'dt option"

subsection \<open>The calendar engine (GLib) as a parameter\<close>

text \<open>
  GLib is not part of the repository. Each GLib function that the file calls is a
  field of the record below; a function that returns a pointer returns an option, and
  a pointer argument is an option. The local zone and the current time are what the
  engine answers at the call.
\<close>

record ('tz, 'dt) glib =
  g_time_zone_new_local :: "'tz option"
  g_time_zone_new :: "string \<Rightarrow> 'tz option"
  g_date_time_new_now_local :: "'dt option"
  g_date_time_new_from_unix_local :: "int \<Rightarrow> 'dt option"
  g_date_time_new_local :: "int \<Rightarrow> int \<Rightarrow> int \<Rightarrow> int \<Rightarrow> int \<Rightarrow> real \<Rightarrow> 'dt option"
  g_date_time_new :: "'tz option \<Rightarrow> int \<Rightarrow> int \<Rightarrow> int \<Rightarrow> int \<Rightarrow> int \<Rightarrow> real \<Rightarrow> 'dt option"
  g_date_time_to_timezone :: "'dt option \<Rightarrow> 'tz option \<Rightarrow> 'dt option"
  g_date_time_add_full :: "'dt option \<Rightarrow> int \<Rightarrow> int \<Rightarrow> int \<Rightarrow> int \<Rightarrow> int \<Rightarrow> real \<Rightarrow> 'dt option"
  g_date_time_get_ymd :: "'dt option \<Rightarrow> int \<times> int \<times> int"
  g_date_time_get_year :: "'dt option \<Rightarrow> int"
  g_date_time_get_day_of_year :: "'dt option \<Rightarrow> int"
  g_date_time_get_day_of_month :: "'dt option \<Rightarrow> int"
  g_date_time_get_hour :: "'dt option \<Rightarrow> int"
  g_date_time_get_minute :: "'dt option \<Rightarrow> int"
  g_date_time_get_seconds :: "'dt option \<Rightarrow> real"
  g_date_time_to_unix :: "'dt option \<Rightarrow> int"
  g_date_time_compare :: "'dt option \<Rightarrow> 'dt option \<Rightarrow> int"
  g_date_time_difference :: "'dt option \<Rightarrow> 'dt option \<Rightarrow> int"

subsection \<open>Construction\<close>

definition DateTime_default :: "('tz, 'dt) DateTime" where
  \<comment> \<open>\<^verbatim>\<open>DateTime::DateTime()\<close>: both shared pointers start empty.\<close>
  "DateTime_default = \<lparr>m_tz = None, m_dt = None\<rparr>"

definition reset ::
  "('tz, 'dt) DateTime \<Rightarrow> 'tz option \<Rightarrow> 'dt option \<Rightarrow> failure + ('tz, 'dt) DateTime" where
  \<comment> \<open>\<^verbatim>\<open>DateTime::reset\<close>: the guard returns early and leaves the object as it was;
      the two \<^verbatim>\<open>g_assert\<close>s check the shared pointers just assigned.\<close>
  "reset this gtz gdt =
     (if (gdt = None) \<noteq> (gtz = None) then Inr this
      else
        let this1 = (if gtz \<noteq> None then this\<lparr>m_tz := gtz\<rparr> else this\<lparr>m_tz := None\<rparr>)
        in if gtz \<noteq> None \<and> m_tz this1 = None then Inl Aborted
           else
             let this2 = (if gdt \<noteq> None then this1\<lparr>m_dt := gdt\<rparr> else this1\<lparr>m_dt := None\<rparr>)
             in if gdt \<noteq> None \<and> m_dt this2 = None then Inl Aborted
                else Inr this2)"

definition DateTime_gtz_gdt ::
  "'tz option \<Rightarrow> 'dt option \<Rightarrow> failure + ('tz, 'dt) DateTime" where
  \<comment> \<open>\<^verbatim>\<open>DateTime::DateTime(GTimeZone*, GDateTime*)\<close>: on a mismatched pair
      \<^verbatim>\<open>g_return_if_fail\<close> leaves the constructor with the members default-initialised.\<close>
  "DateTime_gtz_gdt gtz gdt =
     (if (gtz = None) \<noteq> (gdt = None) then Inr DateTime_default
      else reset DateTime_default gtz gdt)"

definition operator_assign ::
  "('tz, 'dt) DateTime \<Rightarrow> ('tz, 'dt) DateTime \<Rightarrow> ('tz, 'dt) DateTime" where
  \<comment> \<open>\<^verbatim>\<open>DateTime::operator=\<close>: the new value of \<^verbatim>\<open>*this\<close>.\<close>
  "operator_assign this that = this\<lparr>m_tz := m_tz that, m_dt := m_dt that\<rparr>"

definition DateTime_time_t :: "('tz, 'dt) glib \<Rightarrow> int \<Rightarrow> failure + ('tz, 'dt) DateTime" where
  \<comment> \<open>\<^verbatim>\<open>DateTime::DateTime(time_t)\<close>.\<close>
  "DateTime_time_t G t =
     (let gtz = g_time_zone_new_local G;
          gdt = g_date_time_new_from_unix_local G t
      in reset DateTime_default gtz gdt)"

definition NowLocal :: "('tz, 'dt) glib \<Rightarrow> failure + ('tz, 'dt) DateTime" where
  "NowLocal G =
     (let gtz = g_time_zone_new_local G;
          gdt = g_date_time_new_now_local G
      in DateTime_gtz_gdt gtz gdt)"

definition Local ::
  "('tz, 'dt) glib \<Rightarrow> int \<Rightarrow> int \<Rightarrow> int \<Rightarrow> int \<Rightarrow> int \<Rightarrow> int \<Rightarrow> failure + ('tz, 'dt) DateTime" where
  \<comment> \<open>The parameter \<^verbatim>\<open>seconds\<close> is an \<^verbatim>\<open>int\<close>, converted to \<^verbatim>\<open>gdouble\<close> at the call.\<close>
  "Local G year month day hour minute secs =
     (let gtz = g_time_zone_new_local G;
          gdt = g_date_time_new_local G year month day hour minute (real_of_int secs)
      in DateTime_gtz_gdt gtz gdt)"

subsection \<open>Accessors\<close>

definition get :: "('tz, 'dt) DateTime \<Rightarrow> failure + 'dt option" where
  \<comment> \<open>\<^verbatim>\<open>DateTime::get\<close>: \<^verbatim>\<open>g_assert(m_dt)\<close>, then the raw pointer.\<close>
  "get this = (if m_dt this = None then Inl Aborted else Inr (m_dt this))"

definition is_set :: "('tz, 'dt) DateTime \<Rightarrow> bool" where
  \<comment> \<open>Modelled from the spec: \<^verbatim>\<open>is_set()\<close> is declared in datetime/date-time.h, which
      is not among the sources. The spec calls a value set when both handles are
      present.\<close>
  "is_set this = (m_tz this \<noteq> None \<and> m_dt this \<noteq> None)"

definition ymd :: "('tz, 'dt) glib \<Rightarrow> ('tz, 'dt) DateTime \<Rightarrow> failure + int \<times> int \<times> int" where
  \<comment> \<open>\<^verbatim>\<open>DateTime::ymd\<close>: the three out-parameters as a triple.\<close>
  "ymd G this = (case get this of Inl e \<Rightarrow> Inl e | Inr p \<Rightarrow> Inr (g_date_time_get_ymd G p))"

definition day_of_month :: "('tz, 'dt) glib \<Rightarrow> ('tz, 'dt) DateTime \<Rightarrow> failure + int" where
  "day_of_month G this =
     (case get this of Inl e \<Rightarrow> Inl e | Inr p \<Rightarrow> Inr (g_date_time_get_day_of_month G p))"

definition hour :: "('tz, 'dt) glib \<Rightarrow> ('tz, 'dt) DateTime \<Rightarrow> failure + int" where
  "hour G this = (case get this of Inl e \<Rightarrow> Inl e | Inr p \<Rightarrow> Inr (g_date_time_get_hour G p))"

definition minute :: "('tz, 'dt) glib \<Rightarrow> ('tz, 'dt) DateTime \<Rightarrow> failure + int" where
  "minute G this = (case get this of Inl e \<Rightarrow> Inl e | Inr p \<Rightarrow> Inr (g_date_time_get_minute G p))"

definition seconds :: "('tz, 'dt) glib \<Rightarrow> ('tz, 'dt) DateTime \<Rightarrow> failure + real" where
  "seconds G this = (case get this of Inl e \<Rightarrow> Inl e | Inr p \<Rightarrow> Inr (g_date_time_get_seconds G p))"

definition to_unix :: "('tz, 'dt) glib \<Rightarrow> ('tz, 'dt) DateTime \<Rightarrow> failure + int" where
  "to_unix G this = (case get this of Inl e \<Rightarrow> Inl e | Inr p \<Rightarrow> Inr (g_date_time_to_unix G p))"

subsection \<open>Transformations\<close>

definition to_timezone ::
  "('tz, 'dt) glib \<Rightarrow> ('tz, 'dt) DateTime \<Rightarrow> string \<Rightarrow> failure + ('tz, 'dt) DateTime" where
  \<comment> \<open>The zone is looked up first; \<^verbatim>\<open>get()\<close> is evaluated for the next call.\<close>
  "to_timezone G this zone =
     (let gtz = g_time_zone_new G zone
      in case get this of
           Inl e \<Rightarrow> Inl e
         | Inr p \<Rightarrow> let gdt = g_date_time_to_timezone G p gtz in DateTime_gtz_gdt gtz gdt)"

definition start_of_day ::
  "('tz, 'dt) glib \<Rightarrow> ('tz, 'dt) DateTime \<Rightarrow> failure + ('tz, 'dt) DateTime" where
  "start_of_day G this =
     (if \<not> is_set this then Inl Aborted
      else if m_tz this = None then Inl Aborted
      else case ymd G this of
             Inl e \<Rightarrow> Inl e
           | Inr (y, m, d) \<Rightarrow>
               let gdt = g_date_time_new G (m_tz this) y m d 0 0 0
               in DateTime_gtz_gdt (m_tz this) gdt)"

definition start_of_minute ::
  "('tz, 'dt) glib \<Rightarrow> ('tz, 'dt) DateTime \<Rightarrow> failure + ('tz, 'dt) DateTime" where
  "start_of_minute G this =
     (if \<not> is_set this then Inl Aborted
      else if m_tz this = None then Inl Aborted
      else case ymd G this of
             Inl e \<Rightarrow> Inl e
           | Inr (y, m, d) \<Rightarrow>
               (case hour G this of
                  Inl e \<Rightarrow> Inl e
                | Inr h \<Rightarrow>
                    (case minute G this of
                       Inl e \<Rightarrow> Inl e
                     | Inr mi \<Rightarrow>
                         let gdt = g_date_time_new G (m_tz this) y m d h mi 0
                         in DateTime_gtz_gdt (m_tz this) gdt)))"

definition add_full ::
  "('tz, 'dt) glib \<Rightarrow> ('tz, 'dt) DateTime \<Rightarrow> int \<Rightarrow> int \<Rightarrow> int \<Rightarrow> int \<Rightarrow> int \<Rightarrow> real
     \<Rightarrow> failure + ('tz, 'dt) DateTime" where
  "add_full G this years months days hours minutes secs =
     (case get this of
        Inl e \<Rightarrow> Inl e
      | Inr p \<Rightarrow>
          let gdt = g_date_time_add_full G p years months days hours minutes secs
          in DateTime_gtz_gdt (m_tz this) gdt)"

definition add_days ::
  "('tz, 'dt) glib \<Rightarrow> ('tz, 'dt) DateTime \<Rightarrow> int \<Rightarrow> failure + ('tz, 'dt) DateTime" where
  "add_days G this days = add_full G this 0 0 days 0 0 0"

subsection \<open>Comparisons\<close>

definition operator_lt :: "('tz, 'dt) glib \<Rightarrow> ('tz, 'dt) DateTime \<Rightarrow> ('tz, 'dt) DateTime \<Rightarrow> failure + bool" where
  "operator_lt G this that =
     (case get this of
        Inl e \<Rightarrow> Inl e
      | Inr p \<Rightarrow> (case get that of Inl e \<Rightarrow> Inl e | Inr q \<Rightarrow> Inr (g_date_time_compare G p q < 0)))"

definition operator_le :: "('tz, 'dt) glib \<Rightarrow> ('tz, 'dt) DateTime \<Rightarrow> ('tz, 'dt) DateTime \<Rightarrow> failure + bool" where
  "operator_le G this that =
     (case get this of
        Inl e \<Rightarrow> Inl e
      | Inr p \<Rightarrow> (case get that of Inl e \<Rightarrow> Inl e | Inr q \<Rightarrow> Inr (g_date_time_compare G p q \<le> 0)))"

definition operator_eq :: "('tz, 'dt) glib \<Rightarrow> ('tz, 'dt) DateTime \<Rightarrow> ('tz, 'dt) DateTime \<Rightarrow> failure + bool" where
  \<comment> \<open>\<^verbatim>\<open>DateTime::operator==\<close>: both pointers are fetched with \<^verbatim>\<open>get()\<close> before the
      null tests, and fetched again for the comparison.\<close>
  "operator_eq G this that =
     (case get this of
        Inl e \<Rightarrow> Inl e
      | Inr dt \<Rightarrow>
          (case get that of
             Inl e \<Rightarrow> Inl e
           | Inr tdt \<Rightarrow>
               if dt = None \<and> tdt = None then Inr True
               else if dt = None \<or> tdt = None then Inr False
               else (case get this of
                       Inl e \<Rightarrow> Inl e
                     | Inr p \<Rightarrow>
                         (case get that of
                            Inl e \<Rightarrow> Inl e
                          | Inr q \<Rightarrow> Inr (g_date_time_compare G p q = 0)))))"

definition operator_ne :: "('tz, 'dt) glib \<Rightarrow> ('tz, 'dt) DateTime \<Rightarrow> ('tz, 'dt) DateTime \<Rightarrow> failure + bool" where
  \<comment> \<open>\<^verbatim>\<open>DateTime::operator!=\<close>: \<^verbatim>\<open>||\<close> short-circuits, so \<^verbatim>\<open>==\<close> is not called when
      \<^verbatim>\<open>m_dt\<close> is empty.\<close>
  "operator_ne G this that =
     (if m_dt this = None then Inr True
      else case operator_eq G this that of Inl e \<Rightarrow> Inl e | Inr b \<Rightarrow> Inr (\<not> b))"

definition operator_minus :: "('tz, 'dt) glib \<Rightarrow> ('tz, 'dt) DateTime \<Rightarrow> ('tz, 'dt) DateTime \<Rightarrow> failure + int" where
  "operator_minus G this that =
     (case get this of
        Inl e \<Rightarrow> Inl e
      | Inr p \<Rightarrow> (case get that of Inl e \<Rightarrow> Inl e | Inr q \<Rightarrow> Inr (g_date_time_difference G p q)))"

definition is_same_day :: "('tz, 'dt) glib \<Rightarrow> ('tz, 'dt) DateTime \<Rightarrow> ('tz, 'dt) DateTime \<Rightarrow> failure + bool" where
  "is_same_day G a b =
     (if m_dt a = None \<or> m_dt b = None then Inr False
      else case get a of
             Inl e \<Rightarrow> Inl e
           | Inr adt \<Rightarrow>
               (case get b of
                  Inl e \<Rightarrow> Inl e
                | Inr bdt \<Rightarrow>
                    Inr (g_date_time_get_year G adt = g_date_time_get_year G bdt
                         \<and> g_date_time_get_day_of_year G adt = g_date_time_get_day_of_year G bdt)))"

definition is_same_minute :: "('tz, 'dt) glib \<Rightarrow> ('tz, 'dt) DateTime \<Rightarrow> ('tz, 'dt) DateTime \<Rightarrow> failure + bool" where
  "is_same_minute G a b =
     (case is_same_day G a b of
        Inl e \<Rightarrow> Inl e
      | Inr same \<Rightarrow>
          if \<not> same then Inr False
          else (case get a of
                  Inl e \<Rightarrow> Inl e
                | Inr adt \<Rightarrow>
                    (case get b of
                       Inl e \<Rightarrow> Inl e
                     | Inr bdt \<Rightarrow>
                         Inr (g_date_time_get_hour G adt = g_date_time_get_hour G bdt
                              \<and> g_date_time_get_minute G adt = g_date_time_get_minute G bdt))))"

subsection \<open>The invariant and the engine's contract\<close>

definition all_or_nothing :: "('tz, 'dt) DateTime \<Rightarrow> bool" where
  \<comment> \<open>The guard of \<^verbatim>\<open>reset\<close> and of the two-pointer constructor, read on the members.\<close>
  "all_or_nothing this = ((m_dt this = None) = (m_tz this = None))"

definition reads_back :: "('tz, 'dt) glib \<Rightarrow> 'dt \<Rightarrow> int \<Rightarrow> int \<Rightarrow> int \<Rightarrow> int \<Rightarrow> int \<Rightarrow> bool" where
  \<comment> \<open>Modelled from the spec: \<^verbatim>\<open>g_date_time_new\<close> and the field getters belong to
      GLib, which is not among the sources. Of the engine the spec asks "construction
      from calendar fields in a given zone, with an explicit failure signal for invalid
      field combinations" and "field extraction". A moment that was asked for at second
      0 of the given date, hour and minute reads back when the getters answer exactly
      those fields for it.\<close>
  "reads_back G dt y m d h mi =
     (g_date_time_get_ymd G (Some dt) = (y, m, d)
      \<and> g_date_time_get_hour G (Some dt) = h
      \<and> g_date_time_get_minute G (Some dt) = mi
      \<and> g_date_time_get_seconds G (Some dt) = 0)"

definition conversion_keeps_instant :: "('tz, 'dt) glib \<Rightarrow> bool" where
  \<comment> \<open>Modelled from the spec: \<^verbatim>\<open>g_date_time_to_timezone\<close> and \<^verbatim>\<open>g_date_time_to_unix\<close>
      belong to GLib, which is not among the sources. Of the engine the spec asks
      "conversion of an absolute instant's display zone"; of the conversion it says that
      "the absolute instant is unchanged, only its timezone/field decomposition changes"
      and that it fails if the zone name is not resolvable; the epoch seconds it calls
      "timezone-independent". So the conversion of a moment to a zone answers, and the
      answer has the epoch seconds of the moment.\<close>
  "conversion_keeps_instant G =
     (\<forall>dt tz.
        (\<exists>dt'. g_date_time_to_timezone G (Some dt) (Some tz) = Some dt')
        \<and> (\<forall>dt'. g_date_time_to_timezone G (Some dt) (Some tz) = Some dt' \<longrightarrow>
               g_date_time_to_unix G (Some dt') = g_date_time_to_unix G (Some dt)))"

section \<open>A reference engine with fixed-offset zones\<close>

text \<open>
  To run the definitions on concrete values the engine parameter is instantiated with a
  small proleptic Gregorian calendar. A zone is its offset from UTC in seconds; a moment
  keeps its epoch seconds, its zone offset and the calendar fields shown in that zone.
\<close>

definition leap_year :: "int \<Rightarrow> bool" where
  "leap_year y = (if y mod 400 = 0 then True else if y mod 100 = 0 then False else y mod 4 = 0)"

definition days_in_month :: "int \<Rightarrow> int \<Rightarrow> int" where
  "days_in_month y m =
     (if m = 2 then (if leap_year y then 29 else 28)
      else if m = 4 \<or> m = 6 \<or> m = 9 \<or> m = 11 then 30 else 31)"

definition days_from_civil :: "int \<Rightarrow> int \<Rightarrow> int \<Rightarrow> int" where
  \<comment> \<open>Days from 1970-01-01 to the given date.\<close>
  "days_from_civil y m d =
     (let y1 = (if m \<le> 2 then y - 1 else y);
          era = y1 div 400;
          yoe = y1 - era * 400;
          mp = (if m > 2 then m - 3 else m + 9);
          doy = (153 * mp + 2) div 5 + d - 1;
          doe = yoe * 365 + yoe div 4 - yoe div 100 + doy
      in era * 146097 + doe - 719468)"

definition civil_from_days :: "int \<Rightarrow> int \<times> int \<times> int" where
  \<comment> \<open>The date that many days after 1970-01-01.\<close>
  "civil_from_days z =
     (let z1 = z + 719468;
          era = z1 div 146097;
          doe = z1 - era * 146097;
          yoe = (doe - doe div 1460 + doe div 36524 - doe div 146096) div 365;
          y = yoe + era * 400;
          doy = doe - (365 * yoe + yoe div 4 - yoe div 100);
          mp = (5 * doy + 2) div 153;
          d = doy - (153 * mp + 2) div 5 + 1;
          m = (if mp < 10 then mp + 3 else mp - 9)
      in (if m \<le> 2 then y + 1 else y, m, d))"

record moment =
  mo_unix :: int
  mo_offset :: int
  mo_year :: int
  mo_month :: int
  mo_day :: int
  mo_hour :: int
  mo_minute :: int
  mo_seconds :: real

definition moment_at :: "int \<Rightarrow> int \<Rightarrow> real \<Rightarrow> moment" where
  \<comment> \<open>The moment at the given epoch second (plus a fraction), shown at the offset.\<close>
  "moment_at off unix fr =
     (let loc = unix + off;
          sod = loc mod 86400
      in case civil_from_days (loc div 86400) of
           (y, m, d) \<Rightarrow>
             \<lparr>mo_unix = unix, mo_offset = off, mo_year = y, mo_month = m, mo_day = d,
              mo_hour = sod div 3600, mo_minute = sod mod 3600 div 60,
              mo_seconds = real_of_int (sod mod 60) + fr\<rparr>)"

definition valid_fields :: "int \<Rightarrow> int \<Rightarrow> int \<Rightarrow> int \<Rightarrow> int \<Rightarrow> real \<Rightarrow> bool" where
  "valid_fields y m d h mi s =
     (1 \<le> y \<and> y \<le> 9999 \<and> 1 \<le> m \<and> m \<le> 12 \<and> 1 \<le> d \<and> d \<le> days_in_month y m
      \<and> 0 \<le> h \<and> h < 24 \<and> 0 \<le> mi \<and> mi < 60 \<and> 0 \<le> s \<and> s < 60)"

definition moment_new ::
  "int option \<Rightarrow> int \<Rightarrow> int \<Rightarrow> int \<Rightarrow> int \<Rightarrow> int \<Rightarrow> real \<Rightarrow> moment option" where
  "moment_new tz y m d h mi s =
     (case tz of
        None \<Rightarrow> None
      | Some off \<Rightarrow>
          if valid_fields y m d h mi s
          then Some \<lparr>mo_unix = days_from_civil y m d * 86400 + h * 3600 + mi * 60 + \<lfloor>s\<rfloor> - off,
                     mo_offset = off, mo_year = y, mo_month = m, mo_day = d,
                     mo_hour = h, mo_minute = mi, mo_seconds = s\<rparr>
          else None)"

definition moment_to_zone :: "moment option \<Rightarrow> int option \<Rightarrow> moment option" where
  "moment_to_zone p tz =
     (case p of
        None \<Rightarrow> None
      | Some mo \<Rightarrow>
          (case tz of
             None \<Rightarrow> None
           | Some off \<Rightarrow> Some (moment_at off (mo_unix mo) (frac (mo_seconds mo)))))"

definition moment_add ::
  "moment option \<Rightarrow> int \<Rightarrow> int \<Rightarrow> int \<Rightarrow> int \<Rightarrow> int \<Rightarrow> real \<Rightarrow> moment option" where
  \<comment> \<open>Years and months move the date, clamping the day to the month's length; the
      rest is added as elapsed time.\<close>
  "moment_add p years months days hours minutes secs =
     (case p of
        None \<Rightarrow> None
      | Some mo \<Rightarrow>
          let mths = (mo_year mo + years) * 12 + (mo_month mo - 1) + months;
              y = mths div 12;
              m = mths mod 12 + 1;
              d = min (mo_day mo) (days_in_month y m);
              t = mo_seconds mo + secs;
              loc = (days_from_civil y m d + days) * 86400
                    + (mo_hour mo + hours) * 3600 + (mo_minute mo + minutes) * 60 + \<lfloor>t\<rfloor>;
              r = moment_at (mo_offset mo) (loc - mo_offset mo) (frac t)
          in if 1 \<le> mo_year r \<and> mo_year r \<le> 9999 then Some r else None)"

definition zone_of_name :: "string \<Rightarrow> int option" where
  "zone_of_name n =
     (if n = ''UTC'' then Some 0
      else if n = ''+01:00'' then Some 3600
      else if n = ''-05:00'' then Some (- 18000)
      else None)"

definition moment_compare :: "moment option \<Rightarrow> moment option \<Rightarrow> int" where
  "moment_compare p q =
     (case p of
        None \<Rightarrow> 0
      | Some a \<Rightarrow>
          (case q of
             None \<Rightarrow> 0
           | Some b \<Rightarrow>
               let ka = real_of_int (mo_unix a) + frac (mo_seconds a);
                   kb = real_of_int (mo_unix b) + frac (mo_seconds b)
               in if ka < kb then - 1 else if kb < ka then 1 else 0))"

definition moment_difference :: "moment option \<Rightarrow> moment option \<Rightarrow> int" where
  "moment_difference p q =
     (case p of
        None \<Rightarrow> 0
      | Some a \<Rightarrow>
          (case q of
             None \<Rightarrow> 0
           | Some b \<Rightarrow>
               \<lfloor>(real_of_int (mo_unix a) + frac (mo_seconds a)
                  - (real_of_int (mo_unix b) + frac (mo_seconds b))) * 1000000\<rfloor>))"

definition moment_field :: "(moment \<Rightarrow> 'a) \<Rightarrow> 'a \<Rightarrow> moment option \<Rightarrow> 'a" where
  \<comment> \<open>A getter answers the fallback on a null pointer.\<close>
  "moment_field f dflt p = (case p of None \<Rightarrow> dflt | Some mo \<Rightarrow> f mo)"

definition local_offset :: int where
  "local_offset = 3600"

definition reference_engine :: "(int, moment) glib" where
  "reference_engine =
     \<lparr>g_time_zone_new_local = Some local_offset,
      g_time_zone_new = zone_of_name,
      g_date_time_new_now_local = Some (moment_at local_offset 1700000000 0),
      g_date_time_new_from_unix_local = (\<lambda>t. Some (moment_at local_offset t 0)),
      g_date_time_new_local = moment_new (Some local_offset),
      g_date_time_new = moment_new,
      g_date_time_to_timezone = moment_to_zone,
      g_date_time_add_full = moment_add,
      g_date_time_get_ymd = moment_field (\<lambda>mo. (mo_year mo, mo_month mo, mo_day mo)) (0, 0, 0),
      g_date_time_get_year = moment_field mo_year 0,
      g_date_time_get_day_of_year =
        moment_field (\<lambda>mo. days_from_civil (mo_year mo) (mo_month mo) (mo_day mo)
                            - days_from_civil (mo_year mo) 1 1 + 1) 0,
      g_date_time_get_day_of_month = moment_field mo_day 0,
      g_date_time_get_hour = moment_field mo_hour 0,
      g_date_time_get_minute = moment_field mo_minute 0,
      g_date_time_get_seconds = moment_field mo_seconds 0,
      g_date_time_to_unix = moment_field mo_unix 0,
      g_date_time_compare = moment_compare,
      g_date_time_difference = moment_difference\<rparr>"

definition refusing_engine :: "(int, moment) glib" where
  \<comment> \<open>The reference engine, except that \<^verbatim>\<open>g_date_time_new\<close> signals failure: it
      answers a null pointer whatever fields it is asked for.\<close>
  "refusing_engine = reference_engine\<lparr>g_date_time_new := (\<lambda>tz y m d h mi s. None)\<rparr>"

definition gap_engine :: "(int, moment) glib" where
  \<comment> \<open>The reference engine for a zone whose clocks jump from 00:00 to 01:00 as
      2023-11-14 begins: asked for a time inside the missing hour,
      \<^verbatim>\<open>g_date_time_new\<close> answers 01:00:00 of that day.\<close>
  "gap_engine =
     reference_engine
       \<lparr>g_date_time_new :=
          (\<lambda>tz y m d h mi s.
             if y = 2023 \<and> m = 11 \<and> d = 14 \<and> h = 0 then moment_new tz y m d 1 0 0
             else moment_new tz y m d h mi s)\<rparr>"

subsection \<open>Sample values\<close>

definition nine_sharp :: "(int, moment) DateTime" where
  \<comment> \<open>2024-01-15 09:00:00 in the local zone.\<close>
  "nine_sharp =
     \<lparr>m_tz = Some 3600,
      m_dt = Some \<lparr>mo_unix = 1705305600, mo_offset = 3600, mo_year = 2024, mo_month = 1,
                   mo_day = 15, mo_hour = 9, mo_minute = 0, mo_seconds = 0\<rparr>\<rparr>"

definition nine_and_a_half_minute :: "(int, moment) DateTime" where
  \<comment> \<open>2024-01-15 09:00:30 in the local zone.\<close>
  "nine_and_a_half_minute =
     \<lparr>m_tz = Some 3600,
      m_dt = Some \<lparr>mo_unix = 1705305630, mo_offset = 3600, mo_year = 2024, mo_month = 1,
                   mo_day = 15, mo_hour = 9, mo_minute = 0, mo_seconds = 30\<rparr>\<rparr>"

definition late_evening :: "(int, moment) DateTime" where
  \<comment> \<open>2023-11-14 23:13:20 in the local zone, epoch second 1700000000.\<close>
  "late_evening =
     \<lparr>m_tz = Some 3600,
      m_dt = Some \<lparr>mo_unix = 1700000000, mo_offset = 3600, mo_year = 2023, mo_month = 11,
                   mo_day = 14, mo_hour = 23, mo_minute = 13, mo_seconds = 20\<rparr>\<rparr>"

definition that_midnight :: "(int, moment) DateTime" where
  \<comment> \<open>2023-11-14 00:00:00 in the local zone.\<close>
  "that_midnight =
     \<lparr>m_tz = Some 3600,
      m_dt = Some \<lparr>mo_unix = 1699916400, mo_offset = 3600, mo_year = 2023, mo_month = 11,
                   mo_day = 14, mo_hour = 0, mo_minute = 0, mo_seconds = 0\<rparr>\<rparr>"


definition late_evening_further_west :: "(int, moment) DateTime" where
  \<comment> \<open>Epoch second 1700000000 shown five hours west of UTC: 2023-11-14 17:13:20.\<close>
  "late_evening_further_west =
     \<lparr>m_tz = Some (- 18000),
      m_dt = Some \<lparr>mo_unix = 1700000000, mo_offset = - 18000, mo_year = 2023, mo_month = 11,
                   mo_day = 14, mo_hour = 17, mo_minute = 13, mo_seconds = 20\<rparr>\<rparr>"

definition one_o_clock :: "(int, moment) DateTime" where
  \<comment> \<open>2023-11-14 01:00:00 in the local zone.\<close>
  "one_o_clock =
     \<lparr>m_tz = Some 3600,
      m_dt = Some \<lparr>mo_unix = 1699920000, mo_offset = 3600, mo_year = 2023, mo_month = 11,
                   mo_day = 14, mo_hour = 1, mo_minute = 0, mo_seconds = 0\<rparr>\<rparr>"

section \<open>Properties\<close>

subsection \<open>Basic facts about the checks\<close>

lemma get_unset: "m_dt a = None \<Longrightarrow> get a = Inl Aborted"
  by (simp add: get_def)

lemma get_set: "m_dt a = Some dt \<Longrightarrow> get a = Inr (Some dt)"
  by (simp add: get_def)

lemma reset_mismatch: "(gdt = None) \<noteq> (gtz = None) \<Longrightarrow> reset this gtz gdt = Inr this"
  by (simp add: reset_def)

lemma reset_both: "reset this (Some tz) (Some dt) = Inr (this\<lparr>m_tz := Some tz, m_dt := Some dt\<rparr>)"
  by (simp add: reset_def Let_def)

lemma reset_neither: "reset this None None = Inr (this\<lparr>m_tz := None, m_dt := None\<rparr>)"
  by (simp add: reset_def Let_def)

lemma ctor_both: "DateTime_gtz_gdt (Some tz) (Some dt) = Inr \<lparr>m_tz = Some tz, m_dt = Some dt\<rparr>"
  by (simp add: DateTime_gtz_gdt_def reset_both DateTime_default_def)

lemma ctor_otherwise:
  "gtz = None \<or> gdt = None \<Longrightarrow> DateTime_gtz_gdt gtz gdt = Inr DateTime_default"
  by (cases gtz; cases gdt) (simp_all add: DateTime_gtz_gdt_def reset_neither DateTime_default_def)

lemma ctor_cases:
  "DateTime_gtz_gdt gtz gdt =
     Inr (if gtz = None \<or> gdt = None then DateTime_default else \<lparr>m_tz = gtz, m_dt = gdt\<rparr>)"
  by (cases gtz; cases gdt) (simp_all add: ctor_both ctor_otherwise)

lemma reset_default_cases:
  "reset DateTime_default gtz gdt =
     Inr (if gtz = None \<or> gdt = None then DateTime_default else \<lparr>m_tz = gtz, m_dt = gdt\<rparr>)"
  by (cases gtz; cases gdt) (simp_all add: reset_def Let_def DateTime_default_def)

lemma all_or_nothing_default: "all_or_nothing DateTime_default"
  by (simp add: all_or_nothing_def DateTime_default_def)

lemma all_or_nothing_ctor: "\<exists>r. DateTime_gtz_gdt gtz gdt = Inr r \<and> all_or_nothing r"
  by (cases gtz; cases gdt)
     (simp_all add: ctor_both ctor_otherwise all_or_nothing_default, simp add: all_or_nothing_def)

lemma all_or_nothing_reset_default: "\<exists>r. reset DateTime_default gtz gdt = Inr r \<and> all_or_nothing r"
  by (cases gtz; cases gdt)
     (simp_all add: reset_default_cases all_or_nothing_default, simp add: all_or_nothing_def)

lemma is_same_day_returns:
  "is_same_day G a b =
     Inr (m_dt a \<noteq> None \<and> m_dt b \<noteq> None
          \<and> g_date_time_get_year G (m_dt a) = g_date_time_get_year G (m_dt b)
          \<and> g_date_time_get_day_of_year G (m_dt a) = g_date_time_get_day_of_year G (m_dt b))"
  by (simp add: is_same_day_def get_def)

lemma unset_iff: "all_or_nothing a \<Longrightarrow> \<not> is_set a \<longleftrightarrow> m_dt a = None"
  by (auto simp add: all_or_nothing_def is_set_def)

subsection \<open>Equality\<close>

text \<open>
  What \<^verbatim>\<open>operator==\<close> and \<^verbatim>\<open>operator!=\<close> do on every pair of values: \<^verbatim>\<open>==\<close>
  aborts when either operand has no moment and otherwise compares with
  \<^verbatim>\<open>g_date_time_compare\<close>; \<^verbatim>\<open>!=\<close> is \<^verbatim>\<open>true\<close> when the left operand has no
  moment, aborts when only the right one has none, and otherwise negates \<^verbatim>\<open>==\<close>.
\<close>

lemma operator_eq_cases:
  "operator_eq G a b =
     (if m_dt a = None \<or> m_dt b = None then Inl Aborted
      else Inr (g_date_time_compare G (m_dt a) (m_dt b) = 0))"
  by (simp add: operator_eq_def get_def)

lemma operator_ne_cases:
  "operator_ne G a b =
     (if m_dt a = None then Inr True
      else if m_dt b = None then Inl Aborted
      else Inr (g_date_time_compare G (m_dt a) (m_dt b) \<noteq> 0))"
  by (simp add: operator_ne_def operator_eq_def get_def)

text \<open>
  C1. \<^verbatim>\<open>operator==\<close> is meant to answer \<^verbatim>\<open>true\<close> for two unset values: its first test
  is \<^verbatim>\<open>if (!dt && !tdt) return true\<close>. The pointers it tests come from \<^verbatim>\<open>get()\<close>,
  which asserts that \<^verbatim>\<open>m_dt\<close> is present, so on two default-constructed values the
  comparison aborts before the test is reached.
\<close>

theorem operator_eq_unset_unset_aborts:
  "operator_eq G DateTime_default DateTime_default = Inl Aborted"
  by (simp add: operator_eq_def get_def DateTime_default_def)

text \<open>
  C2. On two default-constructed values \<^verbatim>\<open>operator!=\<close> answers \<^verbatim>\<open>true\<close> without
  calling \<^verbatim>\<open>operator==\<close>, while \<^verbatim>\<open>operator==\<close> on the same two values aborts in
  \<^verbatim>\<open>get()\<close> instead of answering \<^verbatim>\<open>true\<close>.
\<close>

theorem operator_ne_unset_unset_true_eq_aborts:
  "operator_ne G DateTime_default DateTime_default = Inr True
   \<and> operator_eq G DateTime_default DateTime_default = Inl Aborted"
  by (simp add: operator_ne_def operator_eq_def get_def DateTime_default_def)

subsection \<open>The two-pointer constructor\<close>

text \<open>
  C9, as stated: a (zone, moment) pair with exactly one pointer present makes the
  constructor abort. It does not: with a zone and no moment the constructor returns,
  and the value it leaves is the default-constructed one. \<^verbatim>\<open>Local\<close> relies on this
  for a date that does not exist.
\<close>

theorem mismatched_pair_does_not_abort:
  "((Some (3600 :: int) = None) \<noteq> ((None :: moment option) = None))
   \<and> DateTime_gtz_gdt (Some (3600 :: int)) (None :: moment option) \<noteq> Inl Aborted
   \<and> DateTime_gtz_gdt (Some (3600 :: int)) (None :: moment option) = Inr DateTime_default"
  by (simp add: DateTime_gtz_gdt_def)

text \<open>
  C9, amended: constructing from a (zone, moment) pair with exactly one pointer present
  does not abort. The guard returns early, both in the constructor and in \<^verbatim>\<open>reset\<close>,
  and the constructed value is the unset one (both handles absent).
\<close>

theorem mismatched_pair_yields_unset:
  assumes "(gtz = None) \<noteq> (gdt = None)"
  shows "DateTime_gtz_gdt gtz gdt = Inr DateTime_default
         \<and> reset DateTime_default gtz gdt = Inr DateTime_default"
  using assms by (auto simp add: DateTime_gtz_gdt_def reset_def)

theorem mismatched_pair_yields_unset_witness:
  "((None :: int option) = None) \<noteq> (Some (moment_at 0 0 0) = None)
   \<and> DateTime_gtz_gdt (None :: int option) (Some (moment_at 0 0 0)) = Inr DateTime_default
   \<and> reset DateTime_default (None :: int option) (Some (moment_at 0 0 0)) = Inr DateTime_default"
proof -
  have mismatch: "((None :: int option) = None) \<noteq> (Some (moment_at 0 0 0) = None)"
    by simp
  from mismatched_pair_yields_unset [OF mismatch] mismatch show ?thesis
    by simp
qed

subsection \<open>Same day, same minute\<close>

text \<open>
  C7. For values that are all or nothing, \<^verbatim>\<open>is_same_day(a, b)\<close> is \<^verbatim>\<open>false\<close> when
  \<open>a\<close> or \<open>b\<close> is unset; when both are set it is \<^verbatim>\<open>true\<close> exactly when the years are
  equal and the days of the year are equal, each read from the value's own moment; and
  it is symmetric.
\<close>

theorem is_same_day_spec:
  assumes "all_or_nothing a" and "all_or_nothing b"
  shows "(\<not> is_set a \<or> \<not> is_set b \<longrightarrow> is_same_day G a b = Inr False)
         \<and> (is_set a \<and> is_set b \<longrightarrow>
              is_same_day G a b =
                Inr (g_date_time_get_year G (m_dt a) = g_date_time_get_year G (m_dt b)
                     \<and> g_date_time_get_day_of_year G (m_dt a)
                         = g_date_time_get_day_of_year G (m_dt b)))
         \<and> is_same_day G a b = is_same_day G b a"
proof (intro conjI impI)
  assume "\<not> is_set a \<or> \<not> is_set b"
  with assms have "m_dt a = None \<or> m_dt b = None"
    by (simp add: unset_iff)
  then show "is_same_day G a b = Inr False"
    by (auto simp add: is_same_day_returns)
next
  assume "is_set a \<and> is_set b"
  then have "m_dt a \<noteq> None" and "m_dt b \<noteq> None"
    by (simp_all add: is_set_def)
  then show "is_same_day G a b =
      Inr (g_date_time_get_year G (m_dt a) = g_date_time_get_year G (m_dt b)
           \<and> g_date_time_get_day_of_year G (m_dt a) = g_date_time_get_day_of_year G (m_dt b))"
    by (simp add: is_same_day_returns)
next
  show "is_same_day G a b = is_same_day G b a"
    by (auto simp add: is_same_day_returns)
qed

text \<open>
  C8. \<^verbatim>\<open>is_same_minute(a, b)\<close> is \<^verbatim>\<open>false\<close> unless \<^verbatim>\<open>is_same_day(a, b)\<close> is
  \<^verbatim>\<open>true\<close>; when it is, \<^verbatim>\<open>is_same_minute\<close> is \<^verbatim>\<open>true\<close> exactly when the hours are equal
  and the minutes are equal. Hence \<^verbatim>\<open>is_same_minute(a, b)\<close> implies
  \<^verbatim>\<open>is_same_day(a, b)\<close>.
\<close>

theorem is_same_minute_spec:
  "(is_same_day G a b \<noteq> Inr True \<longrightarrow> is_same_minute G a b = Inr False)
   \<and> (is_same_day G a b = Inr True \<longrightarrow>
        is_same_minute G a b =
          Inr (g_date_time_get_hour G (m_dt a) = g_date_time_get_hour G (m_dt b)
               \<and> g_date_time_get_minute G (m_dt a) = g_date_time_get_minute G (m_dt b)))
   \<and> (is_same_minute G a b = Inr True \<longrightarrow> is_same_day G a b = Inr True)"
  by (auto simp add: is_same_minute_def is_same_day_returns get_def)

subsection \<open>The reference engine on the sample values\<close>

lemma Local_nine_sharp: "Local reference_engine 2024 1 15 9 0 0 = Inr nine_sharp"
  by code_simp

lemma Local_nine_and_a_half_minute:
  "Local reference_engine 2024 1 15 9 0 30 = Inr nine_and_a_half_minute"
  by code_simp

lemma Local_no_such_date: "Local reference_engine 2024 2 30 9 0 0 = Inr DateTime_default"
  by code_simp

lemma NowLocal_late_evening: "NowLocal reference_engine = Inr late_evening"
  by code_simp

lemma epoch_shown_in_utc:
  "DateTime_time_t reference_engine 0
     = Inr \<lparr>m_tz = Some 3600,
            m_dt = Some \<lparr>mo_unix = 0, mo_offset = 3600, mo_year = 1970, mo_month = 1,
                         mo_day = 1, mo_hour = 1, mo_minute = 0, mo_seconds = 0\<rparr>\<rparr>"
  "to_timezone reference_engine
       \<lparr>m_tz = Some 3600,
        m_dt = Some \<lparr>mo_unix = 0, mo_offset = 3600, mo_year = 1970, mo_month = 1,
                     mo_day = 1, mo_hour = 1, mo_minute = 0, mo_seconds = 0\<rparr>\<rparr> ''UTC''
     = Inr \<lparr>m_tz = Some 0,
            m_dt = Some \<lparr>mo_unix = 0, mo_offset = 0, mo_year = 1970, mo_month = 1,
                         mo_day = 1, mo_hour = 0, mo_minute = 0, mo_seconds = 0\<rparr>\<rparr>"
  by code_simp+

lemma first_of_march_plus_a_day:
  "Local reference_engine 2024 3 1 10 30 0
     = Inr \<lparr>m_tz = Some 3600,
            m_dt = Some \<lparr>mo_unix = 1709285400, mo_offset = 3600, mo_year = 2024, mo_month = 3,
                         mo_day = 1, mo_hour = 10, mo_minute = 30, mo_seconds = 0\<rparr>\<rparr>"
  "add_days reference_engine
       \<lparr>m_tz = Some 3600,
        m_dt = Some \<lparr>mo_unix = 1709285400, mo_offset = 3600, mo_year = 2024, mo_month = 3,
                     mo_day = 1, mo_hour = 10, mo_minute = 30, mo_seconds = 0\<rparr>\<rparr> 1
     = Inr \<lparr>m_tz = Some 3600,
            m_dt = Some \<lparr>mo_unix = 1709371800, mo_offset = 3600, mo_year = 2024, mo_month = 3,
                         mo_day = 2, mo_hour = 10, mo_minute = 30, mo_seconds = 0\<rparr>\<rparr>"
  by code_simp+

lemma samples_all_or_nothing:
  "all_or_nothing nine_sharp" "all_or_nothing nine_and_a_half_minute"
  "all_or_nothing late_evening"
  by (simp_all add: all_or_nothing_def nine_sharp_def nine_and_a_half_minute_def
      late_evening_def)

lemma samples_set:
  "is_set nine_sharp" "is_set nine_and_a_half_minute" "is_set late_evening"
  "\<not> is_set (DateTime_default :: (int, moment) DateTime)"
  by (simp_all add: is_set_def nine_sharp_def nine_and_a_half_minute_def late_evening_def
      DateTime_default_def)

lemma reference_engine_reads_back:
  "g_date_time_new reference_engine tz y m d h mi 0 = Some dt \<Longrightarrow>
     reads_back reference_engine dt y m d h mi"
  by (auto simp add: reads_back_def reference_engine_def moment_new_def moment_field_def
      split: option.splits if_splits)

lemma mo_unix_moment_at: "mo_unix (moment_at off u fr) = u"
  by (simp add: moment_at_def Let_def split: prod.splits)

lemma reference_engine_conversion_keeps_instant: "conversion_keeps_instant reference_engine"
  by (auto simp add: conversion_keeps_instant_def reference_engine_def moment_to_zone_def
      moment_field_def mo_unix_moment_at)

theorem is_same_day_spec_witness:
  "is_same_day reference_engine nine_sharp nine_and_a_half_minute = Inr True
   \<and> is_same_day reference_engine nine_and_a_half_minute nine_sharp = Inr True
   \<and> is_same_day reference_engine nine_sharp DateTime_default = Inr False"
proof -
  have fields:
    "g_date_time_get_year reference_engine (m_dt nine_sharp)
       = g_date_time_get_year reference_engine (m_dt nine_and_a_half_minute)"
    "g_date_time_get_day_of_year reference_engine (m_dt nine_sharp)
       = g_date_time_get_day_of_year reference_engine (m_dt nine_and_a_half_minute)"
    by code_simp+
  from is_same_day_spec [OF samples_all_or_nothing(1) samples_all_or_nothing(2),
      of reference_engine] samples_set fields
  have "is_same_day reference_engine nine_sharp nine_and_a_half_minute = Inr True"
    and "is_same_day reference_engine nine_and_a_half_minute nine_sharp = Inr True"
    by auto
  moreover
  from is_same_day_spec [OF samples_all_or_nothing(1) all_or_nothing_default,
      of reference_engine] samples_set
  have "is_same_day reference_engine nine_sharp DateTime_default = Inr False"
    by simp
  ultimately show ?thesis
    by simp
qed

theorem is_same_minute_spec_witness:
  "is_same_day reference_engine nine_sharp nine_and_a_half_minute = Inr True
   \<and> is_same_minute reference_engine nine_sharp nine_and_a_half_minute = Inr True
   \<and> is_same_day reference_engine nine_sharp late_evening \<noteq> Inr True
   \<and> is_same_minute reference_engine nine_sharp late_evening = Inr False"
proof -
  have day: "is_same_day reference_engine nine_sharp nine_and_a_half_minute = Inr True"
    by code_simp
  have other_day: "is_same_day reference_engine nine_sharp late_evening \<noteq> Inr True"
    by code_simp
  have fields:
    "g_date_time_get_hour reference_engine (m_dt nine_sharp)
       = g_date_time_get_hour reference_engine (m_dt nine_and_a_half_minute)"
    "g_date_time_get_minute reference_engine (m_dt nine_sharp)
       = g_date_time_get_minute reference_engine (m_dt nine_and_a_half_minute)"
    by code_simp+
  from is_same_minute_spec [of reference_engine nine_sharp nine_and_a_half_minute] day fields
  have "is_same_minute reference_engine nine_sharp nine_and_a_half_minute = Inr True"
    by simp
  moreover
  from is_same_minute_spec [of reference_engine nine_sharp late_evening] other_day
  have "is_same_minute reference_engine nine_sharp late_evening = Inr False"
    by simp
  ultimately show ?thesis
    using day other_day by simp
qed

text \<open>
  \<^verbatim>\<open>is_same_minute\<close> never reads the seconds: two values with a moment each that agree
  on year, day of the year, hour and minute are in the same minute.
\<close>

theorem is_same_minute_ignores_seconds:
  "m_dt a \<noteq> None \<and> m_dt b \<noteq> None
   \<and> g_date_time_get_year G (m_dt a) = g_date_time_get_year G (m_dt b)
   \<and> g_date_time_get_day_of_year G (m_dt a) = g_date_time_get_day_of_year G (m_dt b)
   \<and> g_date_time_get_hour G (m_dt a) = g_date_time_get_hour G (m_dt b)
   \<and> g_date_time_get_minute G (m_dt a) = g_date_time_get_minute G (m_dt b)
   \<longrightarrow> is_same_minute G a b = Inr True"
  by (simp add: is_same_minute_def is_same_day_def get_def)

theorem is_same_minute_ignores_seconds_witness:
  "seconds reference_engine nine_sharp = Inr 0
   \<and> seconds reference_engine nine_and_a_half_minute = Inr 30
   \<and> is_same_minute reference_engine nine_sharp nine_and_a_half_minute = Inr True"
proof -
  have fields:
    "m_dt nine_sharp \<noteq> None" "m_dt nine_and_a_half_minute \<noteq> None"
    "g_date_time_get_year reference_engine (m_dt nine_sharp)
       = g_date_time_get_year reference_engine (m_dt nine_and_a_half_minute)"
    "g_date_time_get_day_of_year reference_engine (m_dt nine_sharp)
       = g_date_time_get_day_of_year reference_engine (m_dt nine_and_a_half_minute)"
    "g_date_time_get_hour reference_engine (m_dt nine_sharp)
       = g_date_time_get_hour reference_engine (m_dt nine_and_a_half_minute)"
    "g_date_time_get_minute reference_engine (m_dt nine_sharp)
       = g_date_time_get_minute reference_engine (m_dt nine_and_a_half_minute)"
    by code_simp+
  have secs: "seconds reference_engine nine_sharp = Inr 0"
    "seconds reference_engine nine_and_a_half_minute = Inr 30"
    by code_simp+
  from is_same_minute_ignores_seconds [of nine_sharp nine_and_a_half_minute reference_engine]
    fields
  have "is_same_minute reference_engine nine_sharp nine_and_a_half_minute = Inr True"
    by simp
  with secs show ?thesis
    by simp
qed

subsection \<open>The invariant\<close>

lemma transformed_all_or_nothing:
  "(m_dt a = None \<longrightarrow> to_timezone G a z = Inl Aborted)
   \<and> (m_dt a \<noteq> None \<longrightarrow> (\<exists>r. to_timezone G a z = Inr r \<and> all_or_nothing r))"
  "(m_dt a = None \<longrightarrow> add_full G a ys ms ds hs mis ss = Inl Aborted)
   \<and> (m_dt a \<noteq> None \<longrightarrow> (\<exists>r. add_full G a ys ms ds hs mis ss = Inr r \<and> all_or_nothing r))"
  by (auto simp add: to_timezone_def add_full_def get_def Let_def all_or_nothing_ctor)

lemma truncated_all_or_nothing:
  "(\<not> is_set a \<longrightarrow> start_of_day G a = Inl Aborted)
   \<and> (is_set a \<longrightarrow> (\<exists>r. start_of_day G a = Inr r \<and> all_or_nothing r))"
  "(\<not> is_set a \<longrightarrow> start_of_minute G a = Inl Aborted)
   \<and> (is_set a \<longrightarrow> (\<exists>r. start_of_minute G a = Inr r \<and> all_or_nothing r))"
  by (auto simp add: start_of_day_def start_of_minute_def ymd_def hour_def minute_def get_def
      is_set_def Let_def all_or_nothing_ctor split: prod.splits)

text \<open>
  C3. Every value that a constructor or a transformation produces is all or nothing:
  its zone is absent exactly when its moment is absent. The constructors always produce
  a value; a transformation produces one unless it aborts on an unset receiver; an
  assignment copies both handles of a value that is all or nothing.
\<close>

theorem handles_all_or_nothing:
  "all_or_nothing (DateTime_default :: ('tz, 'dt) DateTime)
   \<and> (\<exists>r. NowLocal (G :: ('tz, 'dt) glib) = Inr r \<and> all_or_nothing r)
   \<and> (\<exists>r. Local G y mo d h mi s = Inr r \<and> all_or_nothing r)
   \<and> (\<exists>r. DateTime_time_t G t = Inr r \<and> all_or_nothing r)
   \<and> (\<exists>r. DateTime_gtz_gdt (gtz :: 'tz option) (gdt :: 'dt option) = Inr r \<and> all_or_nothing r)
   \<and> (m_dt a \<noteq> None \<longrightarrow> (\<exists>r. to_timezone G a z = Inr r \<and> all_or_nothing r))
   \<and> (is_set a \<longrightarrow> (\<exists>r. start_of_day G a = Inr r \<and> all_or_nothing r))
   \<and> (is_set a \<longrightarrow> (\<exists>r. start_of_minute G a = Inr r \<and> all_or_nothing r))
   \<and> (m_dt a \<noteq> None \<longrightarrow> (\<exists>r. add_full G a ys ms ds hs mis ss = Inr r \<and> all_or_nothing r))
   \<and> (m_dt a \<noteq> None \<longrightarrow> (\<exists>r. add_days G a n = Inr r \<and> all_or_nothing r))
   \<and> (m_dt a = None \<longrightarrow>
        to_timezone G a z = Inl Aborted \<and> start_of_day G a = Inl Aborted
        \<and> start_of_minute G a = Inl Aborted \<and> add_full G a ys ms ds hs mis ss = Inl Aborted
        \<and> add_days G a n = Inl Aborted)
   \<and> (all_or_nothing that \<longrightarrow> all_or_nothing (operator_assign this that))"
proof -
  have "all_or_nothing that \<longrightarrow> all_or_nothing (operator_assign this that)"
    by (simp add: all_or_nothing_def operator_assign_def)
  moreover have "m_dt a = None \<longrightarrow> \<not> is_set a"
    by (simp add: is_set_def)
  ultimately show ?thesis
    using transformed_all_or_nothing(1) [where a = a and G = G and z = z]
      transformed_all_or_nothing(2) [where a = a and G = G and ys = ys and ms = ms
        and ds = ds and hs = hs and mis = mis and ss = ss]
      transformed_all_or_nothing(2) [where a = a and G = G and ys = 0 and ms = 0
        and ds = n and hs = 0 and mis = 0 and ss = 0]
      truncated_all_or_nothing [where a = a and G = G]
    by (simp add: all_or_nothing_default NowLocal_def Local_def DateTime_time_t_def Let_def
        add_days_def all_or_nothing_ctor all_or_nothing_reset_default)
qed

theorem handles_all_or_nothing_witness:
  "(\<exists>r. to_timezone reference_engine late_evening ''UTC'' = Inr r \<and> all_or_nothing r)
   \<and> (\<exists>r. start_of_day reference_engine late_evening = Inr r \<and> all_or_nothing r)
   \<and> (\<exists>r. start_of_minute reference_engine late_evening = Inr r \<and> all_or_nothing r)
   \<and> (\<exists>r. add_full reference_engine late_evening 0 1 0 0 0 0 = Inr r \<and> all_or_nothing r)
   \<and> (\<exists>r. add_days reference_engine late_evening 1 = Inr r \<and> all_or_nothing r)
   \<and> to_timezone reference_engine DateTime_default ''UTC'' = Inl Aborted
   \<and> all_or_nothing (operator_assign DateTime_default late_evening)"
proof -
  have present: "m_dt late_evening \<noteq> None"
    by (simp add: late_evening_def)
  have absent: "m_dt (DateTime_default :: (int, moment) DateTime) = None"
    by (simp add: DateTime_default_def)
  from handles_all_or_nothing [where G = reference_engine and a = late_evening
      and z = "''UTC''" and ys = 0 and ms = 1 and ds = 0 and hs = 0 and mis = 0 and ss = 0
      and n = 1 and this = DateTime_default and that = late_evening and gtz = None
      and gdt = None and y = 2024 and mo = 1 and d = 15 and h = 9 and mi = 0 and s = 0
      and t = 0]
    present samples_set(3) samples_all_or_nothing(3)
  have "(\<exists>r. to_timezone reference_engine late_evening ''UTC'' = Inr r \<and> all_or_nothing r)
     \<and> (\<exists>r. start_of_day reference_engine late_evening = Inr r \<and> all_or_nothing r)
     \<and> (\<exists>r. start_of_minute reference_engine late_evening = Inr r \<and> all_or_nothing r)
     \<and> (\<exists>r. add_full reference_engine late_evening 0 1 0 0 0 0 = Inr r \<and> all_or_nothing r)
     \<and> (\<exists>r. add_days reference_engine late_evening 1 = Inr r \<and> all_or_nothing r)
     \<and> all_or_nothing (operator_assign DateTime_default late_evening)"
    by simp
  moreover
  from handles_all_or_nothing [where G = reference_engine and a = DateTime_default
      and z = "''UTC''" and ys = 0 and ms = 1 and ds = 0 and hs = 0 and mis = 0 and ss = 0
      and n = 1 and this = DateTime_default and that = late_evening and gtz = None
      and gdt = None and y = 2024 and mo = 1 and d = 15 and h = 9 and mi = 0 and s = 0
      and t = 0] absent
  have "to_timezone reference_engine DateTime_default ''UTC'' = Inl Aborted"
    by simp
  ultimately show ?thesis
    by simp
qed

subsection \<open>Truncating to the day and to the minute\<close>

lemma start_of_day_unset: "\<not> is_set a \<Longrightarrow> start_of_day G a = Inl Aborted"
  by (simp add: start_of_day_def)


lemma start_of_day_set:
  assumes "is_set a" and "g_date_time_get_ymd G (m_dt a) = (y, m, d)"
  shows "start_of_day G a = DateTime_gtz_gdt (m_tz a) (g_date_time_new G (m_tz a) y m d 0 0 0)"
  using assms by (auto simp add: start_of_day_def is_set_def ymd_def get_def)


lemma fields_read_back:
  assumes "reads_back G dt y m d h mi"
  shows "ymd G \<lparr>m_tz = tz', m_dt = Some dt\<rparr> = Inr (y, m, d)"
    and "hour G \<lparr>m_tz = tz', m_dt = Some dt\<rparr> = Inr h"
    and "minute G \<lparr>m_tz = tz', m_dt = Some dt\<rparr> = Inr mi"
    and "seconds G \<lparr>m_tz = tz', m_dt = Some dt\<rparr> = Inr 0"
  using assms
  by (simp_all add: reads_back_def ymd_def hour_def minute_def seconds_def get_def)

lemma start_of_day_engine_refuses:
  assumes "is_set a" and "g_date_time_get_ymd G (m_dt a) = (y, m, d)"
    and "g_date_time_new G (m_tz a) y m d 0 0 0 = None"
  shows "start_of_day G a = Inr DateTime_default"
  using assms by (simp add: start_of_day_set ctor_otherwise)


text \<open>
  C4, as stated: for every set value \<open>a\<close>, \<^verbatim>\<open>a.start_of_day()\<close> has hour, minute and
  seconds 0 on the date of \<open>a\<close>. \<^verbatim>\<open>start_of_day\<close> wraps whatever \<^verbatim>\<open>g_date_time_new\<close>
  answers and does not look at it. When the engine signals failure, the result for the
  set value \<open>late_evening\<close> is the unset value, and asking that for its hour aborts. When
  the engine answers 01:00:00 for a midnight that its zone skips, the result has hour 1.
\<close>

theorem start_of_day_not_always_midnight:
  "is_set late_evening
   \<and> start_of_day refusing_engine late_evening = Inr DateTime_default
   \<and> hour refusing_engine DateTime_default = Inl Aborted
   \<and> start_of_day gap_engine late_evening = Inr one_o_clock
   \<and> hour gap_engine one_o_clock = Inr 1"
proof -
  have "start_of_day refusing_engine late_evening = Inr DateTime_default"
    by code_simp
  moreover have "hour refusing_engine DateTime_default = Inl Aborted"
    by (simp add: hour_def get_def DateTime_default_def)
  moreover have "start_of_day gap_engine late_evening = Inr one_o_clock"
    by code_simp
  moreover have "hour gap_engine one_o_clock = Inr 1"
    by code_simp
  ultimately show ?thesis
    using samples_set(3) by simp
qed

text \<open>
  C4, amended: \<^verbatim>\<open>start_of_day\<close> on a value that is not set aborts on its first
  assertion. On a set value \<open>a\<close> whose date is \<open>(y, m, d)\<close> it asks the engine for
  00:00:00 of that date in \<open>a\<close>'s own zone. When the engine answers no moment, the result
  is the unset value. When the engine answers a moment that reads back as the fields
  asked for, the result is set, wraps that moment in \<open>a\<close>'s zone, has hour, minute and
  seconds 0, and has the date of \<open>a\<close>.
\<close>

theorem start_of_day_spec:
  "(\<not> is_set a \<longrightarrow> start_of_day G a = Inl Aborted)
   \<and> (is_set a \<and> g_date_time_get_ymd G (m_dt a) = (y, m, d)
        \<and> g_date_time_new G (m_tz a) y m d 0 0 0 = None \<longrightarrow>
      start_of_day G a = Inr DateTime_default)
   \<and> (is_set a \<and> g_date_time_get_ymd G (m_dt a) = (y, m, d)
        \<and> g_date_time_new G (m_tz a) y m d 0 0 0 = Some dt
        \<and> reads_back G dt y m d 0 0 \<longrightarrow>
      (\<exists>r. start_of_day G a = Inr r \<and> is_set r \<and> m_tz r = m_tz a \<and> m_dt r = Some dt
           \<and> hour G r = Inr 0 \<and> minute G r = Inr 0 \<and> seconds G r = Inr 0
           \<and> ymd G r = Inr (y, m, d) \<and> ymd G a = Inr (y, m, d)))"
proof (intro conjI impI)
  assume "\<not> is_set a"
  then show "start_of_day G a = Inl Aborted"
    by (rule start_of_day_unset)
next
  assume "is_set a \<and> g_date_time_get_ymd G (m_dt a) = (y, m, d)
          \<and> g_date_time_new G (m_tz a) y m d 0 0 0 = None"
  then show "start_of_day G a = Inr DateTime_default"
    by (simp add: start_of_day_engine_refuses)
next
  assume h: "is_set a \<and> g_date_time_get_ymd G (m_dt a) = (y, m, d)
             \<and> g_date_time_new G (m_tz a) y m d 0 0 0 = Some dt
             \<and> reads_back G dt y m d 0 0"
  then obtain tz where tz: "m_tz a = Some tz"
    by (auto simp add: is_set_def)
  let ?r = "\<lparr>m_tz = Some tz, m_dt = Some dt\<rparr>"
  from h tz have "start_of_day G a = Inr ?r"
    by (simp add: start_of_day_set ctor_both)
  moreover have "is_set ?r" and "m_tz ?r = m_tz a" and "m_dt ?r = Some dt"
    by (simp_all add: is_set_def tz)
  moreover from h have "ymd G a = Inr (y, m, d)"
    by (simp add: ymd_def get_def is_set_def)
  moreover from h have "reads_back G dt y m d 0 0"
    by simp
  ultimately show "\<exists>r. start_of_day G a = Inr r \<and> is_set r \<and> m_tz r = m_tz a
      \<and> m_dt r = Some dt
      \<and> hour G r = Inr 0 \<and> minute G r = Inr 0 \<and> seconds G r = Inr 0
      \<and> ymd G r = Inr (y, m, d) \<and> ymd G a = Inr (y, m, d)"
    using fields_read_back [of G dt y m d 0 0 "Some tz"] by blast
qed

theorem start_of_day_spec_witness:
  "start_of_day reference_engine late_evening = Inr that_midnight
   \<and> hour reference_engine that_midnight = Inr 0
   \<and> minute reference_engine that_midnight = Inr 0
   \<and> seconds reference_engine that_midnight = Inr 0
   \<and> ymd reference_engine that_midnight = Inr (2023, 11, 14)
   \<and> ymd reference_engine late_evening = Inr (2023, 11, 14)
   \<and> m_tz that_midnight = m_tz late_evening
   \<and> (\<exists>r. start_of_day gap_engine nine_sharp = Inr r \<and> hour gap_engine r = Inr 0)
   \<and> start_of_day refusing_engine late_evening = Inr DateTime_default
   \<and> start_of_day reference_engine DateTime_default = Inl Aborted"
proof -
  have date: "g_date_time_get_ymd reference_engine (m_dt late_evening) = (2023, 11, 14)"
    by code_simp
  have constructed:
    "g_date_time_new reference_engine (m_tz late_evening) 2023 11 14 0 0 0
       = Some (the (m_dt that_midnight))"
    by code_simp
  have result: "start_of_day reference_engine late_evening = Inr that_midnight"
    by code_simp
  from start_of_day_spec [where G = reference_engine and a = late_evening and y = 2023
      and m = 11 and d = 14 and dt = "the (m_dt that_midnight)"]
    samples_set(3) date constructed reference_engine_reads_back [OF constructed] result
  have "hour reference_engine that_midnight = Inr 0
     \<and> minute reference_engine that_midnight = Inr 0
     \<and> seconds reference_engine that_midnight = Inr 0
     \<and> ymd reference_engine that_midnight = Inr (2023, 11, 14)
     \<and> ymd reference_engine late_evening = Inr (2023, 11, 14)
     \<and> m_tz that_midnight = m_tz late_evening"
    by auto
  moreover
  have gap_date: "g_date_time_get_ymd gap_engine (m_dt nine_sharp) = (2024, 1, 15)"
    by code_simp
  have gap_constructed:
    "g_date_time_new gap_engine (m_tz nine_sharp) 2024 1 15 0 0 0
       = Some \<lparr>mo_unix = 1705273200, mo_offset = 3600, mo_year = 2024, mo_month = 1,
               mo_day = 15, mo_hour = 0, mo_minute = 0, mo_seconds = 0\<rparr>"
    by code_simp
  have gap_reads:
    "reads_back gap_engine
       \<lparr>mo_unix = 1705273200, mo_offset = 3600, mo_year = 2024, mo_month = 1,
        mo_day = 15, mo_hour = 0, mo_minute = 0, mo_seconds = 0\<rparr> 2024 1 15 0 0"
    by code_simp
  from start_of_day_spec [where G = gap_engine and a = nine_sharp and y = 2024
      and m = 1 and d = 15
      and dt = "\<lparr>mo_unix = 1705273200, mo_offset = 3600, mo_year = 2024, mo_month = 1,
                 mo_day = 15, mo_hour = 0, mo_minute = 0, mo_seconds = 0\<rparr>"]
    samples_set(1) gap_date gap_constructed gap_reads
  have "\<exists>r. start_of_day gap_engine nine_sharp = Inr r \<and> hour gap_engine r = Inr 0"
    by auto
  moreover
  have refused_date: "g_date_time_get_ymd refusing_engine (m_dt late_evening) = (2023, 11, 14)"
    by code_simp
  have refused: "g_date_time_new refusing_engine (m_tz late_evening) 2023 11 14 0 0 0 = None"
    by code_simp
  from start_of_day_spec [where G = refusing_engine and a = late_evening and y = 2023
      and m = 11 and d = 14 and dt = "the (m_dt that_midnight)"]
    samples_set(3) refused_date refused
  have "start_of_day refusing_engine late_evening = Inr DateTime_default"
    by simp
  moreover
  from start_of_day_spec [where G = reference_engine and a = DateTime_default and y = 0
      and m = 0 and d = 0 and dt = "the (m_dt that_midnight)"] samples_set(4)
  have "start_of_day reference_engine DateTime_default = Inl Aborted"
    by simp
  ultimately show ?thesis
    using result by simp
qed




subsection \<open>Changing the zone\<close>

lemma to_timezone_unset: "m_dt a = None \<Longrightarrow> to_timezone G a z = Inl Aborted"
  by (simp add: to_timezone_def get_def)

lemma to_timezone_set:
  "m_dt a \<noteq> None \<Longrightarrow>
     to_timezone G a z =
       DateTime_gtz_gdt (g_time_zone_new G z)
         (g_date_time_to_timezone G (m_dt a) (g_time_zone_new G z))"
  by (auto simp add: to_timezone_def get_def Let_def)

text \<open>
  C6. For a set value \<open>a\<close> and a zone name \<open>z\<close> that the engine resolves,
  \<^verbatim>\<open>a.to_timezone(z)\<close> is a set value with the epoch seconds of \<open>a\<close>, given an engine
  whose zone conversion answers for every moment and zone and keeps the epoch seconds.
\<close>

theorem to_timezone_keeps_unix:
  assumes "conversion_keeps_instant G"
  shows "is_set a \<and> g_time_zone_new G z \<noteq> None \<longrightarrow>
           (\<exists>r u. to_timezone G a z = Inr r \<and> is_set r \<and> m_tz r = g_time_zone_new G z
                  \<and> to_unix G a = Inr u \<and> to_unix G r = Inr u)"
proof
  assume h: "is_set a \<and> g_time_zone_new G z \<noteq> None"
  then obtain dt tz where dt: "m_dt a = Some dt" and tz: "g_time_zone_new G z = Some tz"
    by (auto simp add: is_set_def)
  from assms obtain dt' where conv: "g_date_time_to_timezone G (Some dt) (Some tz) = Some dt'"
    unfolding conversion_keeps_instant_def by blast
  with assms have same: "g_date_time_to_unix G (Some dt') = g_date_time_to_unix G (Some dt)"
    unfolding conversion_keeps_instant_def by blast
  let ?r = "\<lparr>m_tz = Some tz, m_dt = Some dt'\<rparr>"
  from dt tz conv have "to_timezone G a z = Inr ?r"
    by (simp add: to_timezone_set ctor_both)
  moreover have "is_set ?r" and "m_tz ?r = g_time_zone_new G z"
    by (simp_all add: is_set_def tz)
  moreover from dt have "to_unix G a = Inr (g_date_time_to_unix G (Some dt))"
    by (simp add: to_unix_def get_def)
  moreover from same have "to_unix G ?r = Inr (g_date_time_to_unix G (Some dt))"
    by (simp add: to_unix_def get_def)
  ultimately show "\<exists>r u. to_timezone G a z = Inr r \<and> is_set r \<and> m_tz r = g_time_zone_new G z
      \<and> to_unix G a = Inr u \<and> to_unix G r = Inr u"
    by blast
qed

theorem to_timezone_keeps_unix_witness:
  "to_timezone reference_engine late_evening ''-05:00'' = Inr late_evening_further_west
   \<and> to_unix reference_engine late_evening = Inr 1700000000
   \<and> to_unix reference_engine late_evening_further_west = Inr 1700000000
   \<and> hour reference_engine late_evening = Inr 23
   \<and> hour reference_engine late_evening_further_west = Inr 17"
proof -
  have resolved: "g_time_zone_new reference_engine ''-05:00'' \<noteq> None"
    by code_simp
  have result: "to_timezone reference_engine late_evening ''-05:00'' = Inr late_evening_further_west"
    by code_simp
  have before: "to_unix reference_engine late_evening = Inr 1700000000"
    by code_simp
  have hours: "hour reference_engine late_evening = Inr 23"
    "hour reference_engine late_evening_further_west = Inr 17"
    by code_simp+
  from to_timezone_keeps_unix [OF reference_engine_conversion_keeps_instant,
      where a = late_evening and z = "''-05:00''"] samples_set(3) resolved result before
  have "to_unix reference_engine late_evening_further_west = Inr 1700000000"
    by auto
  with result before hours show ?thesis
    by simp
qed

subsection \<open>Adding days\<close>

text \<open>
  C10. For every value \<open>a\<close> and every \<open>n\<close>, \<^verbatim>\<open>a.add_days(n)\<close> is exactly
  \<^verbatim>\<open>a.add_full(0, 0, n, 0, 0, 0)\<close>: the same result when \<open>a\<close> is set, the same abort
  when it is not.
\<close>

theorem add_days_is_add_full:
  "add_days G a n = add_full G a 0 0 n 0 0 0"
  by (simp add: add_days_def)

end
